theory Spec2Isabelle
  imports
    Complex_Main
    "HOL-Library.Char_ord"
    "HOL-Library.List_Lexorder"
    "HOL-Library.Product_Lexorder"
begin

section \<open>Locked constants of the single-position histogram renderer\<close>

text \<open>
  The renderer \<^verbatim>\<open>render_single_position_histogram_adaptive_COLORLOCKED_v2.py\<close> reads four
  documents, aggregates amino-acid proportions per year, resolves the neutralization rows
  and mutation letters of the position's antibodies, and sizes the figure. The drawing
  calls are not part of the model; the data they draw is.

  Python floats are modelled by \<^typ>\<open>real\<close>: sums and quotients are exact here.
\<close>

definition CLUSTERS :: "(string \<times> int \<times> int) list" where
  "CLUSTERS =
    [(''HK68'', 1968, 1972), (''EN72'', 1972, 1975), (''VI75'', 1975, 1977),
     (''TX77'', 1977, 1979), (''BK79'', 1979, 1987), (''SI87'', 1987, 1989),
     (''BE89'', 1989, 1992), (''BE92'', 1992, 1995), (''WU95'', 1995, 1997),
     (''SY97'', 1997, 2002), (''FU02'', 2002, 2004), (''CA04'', 2004, 2005),
     (''WI05'', 2005, 2009), (''PE09'', 2009, 2012), (''TX12'', 2012, 2014),
     (''HK14'', 2014, 2015)]"

definition CLUSTER_NAMES :: "string list" where
  "CLUSTER_NAMES = map fst CLUSTERS"

definition YEAR_MIN :: int where "YEAR_MIN = 1965"
definition YEAR_MAX :: int where "YEAR_MAX = 2020"

definition HIST_H_IN :: real where "HIST_H_IN = 2.0"
definition CLUSTER_H_IN :: real where "CLUSTER_H_IN = 0.30"
definition YEAR_H_IN :: real where "YEAR_H_IN = 0.25"
definition GAP_IN :: real where "GAP_IN = 0.10"
definition TOP_PAD_IN :: real where "TOP_PAD_IN = 0.20"
definition BOTTOM_PAD_IN :: real where "BOTTOM_PAD_IN = 0.02"
definition NEUT_ROW_H_IN :: real where "NEUT_ROW_H_IN = 0.85 / 4.0"
definition NO_MABS_H_IN :: real where "NO_MABS_H_IN = NEUT_ROW_H_IN"

section \<open>Strings as Python handles them\<close>

text \<open>
  \<^verbatim>\<open>str.strip()\<close> removes leading and trailing whitespace; the whitespace characters
  below are the code points under 256 for which \<^verbatim>\<open>str.isspace\<close> holds.
  \<^verbatim>\<open>str.lower()\<close> is given on the same range of code points.
\<close>

definition py_isspace :: "char \<Rightarrow> bool" where
  "py_isspace c = ((of_char c :: nat) \<in> {9, 10, 11, 12, 13, 28, 29, 30, 31, 32, 133, 160})"

definition strip :: "string \<Rightarrow> string" where
  "strip s = rev (dropWhile py_isspace (rev (dropWhile py_isspace s)))"

definition lower_char :: "char \<Rightarrow> char" where
  "lower_char c =
     (let n = (of_char c :: nat)
      in if (65 \<le> n \<and> n \<le> 90) \<or> (192 \<le> n \<and> n \<le> 222 \<and> n \<noteq> 215)
         then char_of (n + 32) else c)"

definition lower :: "string \<Rightarrow> string" where
  "lower s = map lower_char s"

section \<open>Amino-acid label coercion\<close>

text \<open>
  A label cell of the histogram table is either missing (\<^verbatim>\<open>pd.isna(x)\<close>) or a value
  whose \<^verbatim>\<open>str(x)\<close> rendering is the string carried by \<open>Val\<close>.
\<close>

datatype cell = NA | Val string

definition coerce_aa :: "cell \<Rightarrow> string" where
  "coerce_aa x =
     (case x of
        NA \<Rightarrow> ''Other''
      | Val v \<Rightarrow>
          (let s = strip v
           in if s = ''-'' \<or> lower s \<in> set [''nan'', ''na'', ''n/a'', ''none'', '''']
              then ''Other'' else s))"

section \<open>The histogram table and the aggregator\<close>

text \<open>
  A row of the histogram table. \<open>SetName\<close> is \<open>None\<close> for a missing cell; pandas compares
  a missing value unequal to everything, itself included. \<open>year_cell r c\<close> is the number
  under the column labelled by the integer \<open>c\<close>, and \<open>None\<close> where that cell is blank or
  not numeric (\<^verbatim>\<open>pd.to_numeric(..., errors="coerce").fillna(0)\<close> reads it as 0).
  \<open>year_columns\<close> lists the integer column labels of the table, taken as distinct.
\<close>

record hist_row =
  Position :: int
  SetName :: "string option"
  Amino_acid :: cell
  year_cell :: "int \<Rightarrow> real option"

record hist_table =
  year_columns :: "int list"
  table_rows :: "hist_row list"

text \<open>A data frame indexed by years, with labelled columns.\<close>

record frame =
  index :: "int list"
  columns :: "string list"
  entry :: "int \<Rightarrow> string \<Rightarrow> real"

datatype error =
    NoHistogramData
  | KeyError string
  | TypeError
  | IntConversionError

definition cell_eq :: "string option \<Rightarrow> string option \<Rightarrow> bool" where
  "cell_eq a b = (case a of None \<Rightarrow> False | Some x \<Rightarrow> (case b of None \<Rightarrow> False | Some y \<Rightarrow> x = y))"

definition position_rows :: "hist_table \<Rightarrow> int \<Rightarrow> hist_row list" where
  "position_rows df position = filter (\<lambda>r. Position r = position) (table_rows df)"

text \<open>
  \<^verbatim>\<open>sub = df[df["Position"] == position]\<close>, the error for an empty selection, then
  \<^verbatim>\<open>sub[sub["SetName"] == sub["SetName"].iloc[0]]\<close>.
\<close>

definition select_rows :: "hist_table \<Rightarrow> int \<Rightarrow> error + hist_row list" where
  "select_rows df position =
     (case position_rows df position of
        [] \<Rightarrow> Inl NoHistogramData
      | first # rest \<Rightarrow>
          Inr (filter (\<lambda>r. cell_eq (SetName r) (SetName first)) (first # rest)))"

definition years :: "int list" where
  "years = [YEAR_MIN..YEAR_MAX]"

definition yrs_use :: "hist_table \<Rightarrow> int list" where
  "yrs_use df = filter (\<lambda>c. YEAR_MIN \<le> c \<and> c \<le> YEAR_MAX) (year_columns df)"

text \<open>\<^verbatim>\<open>sorted(set(aas), key=lambda z: (z == "Other", z))\<close>\<close>

definition cols_of :: "string list \<Rightarrow> string list" where
  "cols_of aas = sort_key (\<lambda>z. (z = ''Other'', z)) (remdups aas)"

definition numeric :: "real option \<Rightarrow> real" where
  "numeric v = (case v of None \<Rightarrow> 0 | Some x \<Rightarrow> x)"

text \<open>One pass of the loop body: \<^verbatim>\<open>mat.loc[yrs_use, aa] += ...\<close>\<close>

definition add_row :: "int list \<Rightarrow> frame \<Rightarrow> hist_row \<Rightarrow> frame" where
  "add_row yrs mat rr =
     (let aa = coerce_aa (Amino_acid rr)
      in mat\<lparr>entry := (\<lambda>y c. if y \<in> set yrs \<and> c = aa
                               then entry mat y c + numeric (year_cell rr y)
                               else entry mat y c)\<rparr>)"

definition accumulate :: "hist_table \<Rightarrow> hist_row list \<Rightarrow> frame" where
  "accumulate df sub =
     foldl (add_row (yrs_use df))
       \<lparr>index = years,
        columns = cols_of (map (\<lambda>r. coerce_aa (Amino_acid r)) sub),
        entry = (\<lambda>y c. 0)\<rparr>
       sub"

text \<open>
  \<^verbatim>\<open>rs = mat.sum(axis=1); rs[rs == 0] = 1.0; return mat.div(rs, axis=0).fillna(0)\<close>.
  \<open>row_sum\<close> is \<open>rs\<close> before the replacement and \<open>divisor\<close> after it. A quotient of
  reals by a non-zero real is never missing, so \<^verbatim>\<open>fillna(0)\<close> changes nothing here.
\<close>

definition row_sum :: "frame \<Rightarrow> int \<Rightarrow> real" where
  "row_sum mat y = sum_list (map (entry mat y) (columns mat))"

definition divisor :: "frame \<Rightarrow> int \<Rightarrow> real" where
  "divisor mat y = (if row_sum mat y = 0 then 1 else row_sum mat y)"

definition safe_normalize :: "frame \<Rightarrow> frame" where
  "safe_normalize mat = mat\<lparr>entry := (\<lambda>y c. entry mat y c / divisor mat y)\<rparr>"

definition aggregate :: "hist_table \<Rightarrow> hist_row list \<Rightarrow> frame" where
  "aggregate df sub = safe_normalize (accumulate df sub)"

text \<open>
  \<^verbatim>\<open>mat[c].mean()\<close> and the stacking order. Python's \<^verbatim>\<open>sorted(..., reverse=True)\<close> is
  stable, as \<open>sort_key\<close> on the negated key is.
\<close>

definition col_mean :: "frame \<Rightarrow> string \<Rightarrow> real" where
  "col_mean mat c = sum_list (map (\<lambda>y. entry mat y c) (index mat)) / real (length (index mat))"

definition other_cols :: "frame \<Rightarrow> string list" where
  "other_cols mat = filter (\<lambda>c. lower c = ''other'') (columns mat)"

definition main_cols :: "frame \<Rightarrow> string list" where
  "main_cols mat = filter (\<lambda>c. lower c \<noteq> ''other'') (columns mat)"

definition aa_order :: "frame \<Rightarrow> string list" where
  "aa_order mat = sort_key (\<lambda>c. - col_mean mat c) (main_cols mat) @ other_cols mat"

section \<open>The neutralization sheet and the mutation annotations\<close>

text \<open>
  The worksheet as the renderer reads it: row 2 holds the headers (\<open>header ws c\<close> is the
  value at column \<open>c\<close> when it is a string), column B holds the antibody identifiers,
  and every cell has a fill. A cell of column B is empty, or \<^verbatim>\<open>int(v)\<close> succeeds on it,
  or \<^verbatim>\<open>int(v)\<close> raises.
\<close>

datatype id_cell = NoValue | IntLike int | NotInt

record fill =
  patternType :: "string option"
  fgColor_type :: string
  fgColor_rgb :: string

record worksheet =
  max_row :: nat
  max_column :: nat
  header :: "nat \<Rightarrow> string option"
  id_column :: "nat \<Rightarrow> id_cell"
  cell_fill :: "nat \<Rightarrow> nat \<Rightarrow> fill option"

definition cell_hex :: "fill option \<Rightarrow> string" where
  "cell_hex f =
     (case f of
        None \<Rightarrow> ''white''
      | Some fl \<Rightarrow>
          (if patternType fl \<noteq> None \<and> patternType fl \<noteq> Some [] \<and> fgColor_type fl = ''rgb''
           then CHR ''#'' # drop (length (fgColor_rgb fl) - 6) (fgColor_rgb fl)
           else ''white''))"

definition cluster_cols :: "worksheet \<Rightarrow> (string \<rightharpoonup> nat)" where
  "cluster_cols ws =
     foldl (\<lambda>m c. case header ws c of
                     None \<Rightarrow> m
                   | Some v \<Rightarrow> if v \<in> set CLUSTER_NAMES then m(v \<mapsto> c) else m)
       Map.empty [1..<max_column ws + 1]"

fun find_in :: "worksheet \<Rightarrow> int \<Rightarrow> nat list \<Rightarrow> nat option" where
  "find_in ws m [] = None"
| "find_in ws m (rr # rest) =
     (case id_column ws rr of
        NoValue \<Rightarrow> find_in ws m rest
      | NotInt \<Rightarrow> find_in ws m rest
      | IntLike v \<Rightarrow> if \<bar>v\<bar> = \<bar>m\<bar> then Some rr else find_in ws m rest)"

definition find_row :: "worksheet \<Rightarrow> int \<Rightarrow> nat option" where
  "find_row ws m = find_in ws m [3..<max_row ws + 1]"

text \<open>
  \<^verbatim>\<open>cell_hex(ws.cell(rows[m], cluster_cols[c]))\<close>: a cluster name without a column is a
  KeyError; \<^verbatim>\<open>Worksheet.cell\<close> compares its row with 1, which Python refuses with a
  TypeError when the row is \<^verbatim>\<open>None\<close>.
\<close>

definition face_cell :: "worksheet \<Rightarrow> int \<Rightarrow> string \<Rightarrow> error + string" where
  "face_cell ws m c =
     (case cluster_cols ws c of
        None \<Rightarrow> Inl (KeyError c)
      | Some col \<Rightarrow>
          (case find_row ws m of
             None \<Rightarrow> Inl TypeError
           | Some r \<Rightarrow> Inr (cell_hex (cell_fill ws r col))))"

fun collect :: "('a \<Rightarrow> error + 'b) \<Rightarrow> 'a list \<Rightarrow> error + 'b list" where
  "collect f [] = Inr []"
| "collect f (x # xs) =
     (case f x of
        Inl e \<Rightarrow> Inl e
      | Inr y \<Rightarrow> (case collect f xs of Inl e \<Rightarrow> Inl e | Inr ys \<Rightarrow> Inr (y # ys)))"

definition faces_of :: "worksheet \<Rightarrow> int list \<Rightarrow> error + string list list" where
  "faces_of ws mabs = collect (\<lambda>m. collect (face_cell ws m) CLUSTER_NAMES) mabs"

text \<open>
  A row of the annotation table: \<open>Mutation_position\<close> and \<open>mAB_ID\<close> hold the integer that
  the conversion gives, \<open>None\<close> where it raises; the other two fields hold the
  \<^verbatim>\<open>str\<close> rendering of the cell.
\<close>

record annot_row =
  Mutation_position :: "int option"
  mAB_ID :: "int option"
  Virus_strain :: string
  Point_mutation :: string

record resolver_state =
  mutations :: "int \<rightharpoonup> (nat \<times> char \<times> char)"
  asterisk_mabs :: "int list"

definition match_mab :: "int list \<Rightarrow> int \<Rightarrow> int option" where
  "match_mab mabs m_parsed = find (\<lambda>mm. \<bar>mm\<bar> = \<bar>m_parsed\<bar>) mabs"

definition index_of :: "'a list \<Rightarrow> 'a \<Rightarrow> nat" where
  "index_of xs x = length (takeWhile (\<lambda>y. y \<noteq> x) xs)"

definition annot_step :: "int \<Rightarrow> int list \<Rightarrow> resolver_state \<Rightarrow> annot_row \<Rightarrow> error + resolver_state" where
  "annot_step position mabs st rr =
     (case Mutation_position rr of
        None \<Rightarrow> Inl IntConversionError
      | Some p \<Rightarrow>
          if p \<noteq> position then Inr st
          else (case mAB_ID rr of
                  None \<Rightarrow> Inr st
                | Some m_parsed \<Rightarrow>
                    (case match_mab mabs m_parsed of
                       None \<Rightarrow> Inr st
                     | Some m \<Rightarrow>
                         (let strain = strip (Virus_strain rr);
                              mut = strip (Point_mutation rr)
                          in if mut = [] then Inr st
                             else if strain \<notin> set CLUSTER_NAMES then Inr st
                             else (let idx = index_of CLUSTER_NAMES strain
                                   in if idx = length CLUSTER_NAMES - 1
                                      then Inr (st\<lparr>asterisk_mabs := asterisk_mabs st @ [m]\<rparr>)
                                      else Inr (st\<lparr>mutations :=
                                                  (mutations st)(m \<mapsto> (idx, hd mut, last mut))\<rparr>))))))"

fun scan_annotations ::
  "int \<Rightarrow> int list \<Rightarrow> resolver_state \<Rightarrow> annot_row list \<Rightarrow> error + resolver_state" where
  "scan_annotations position mabs st [] = Inr st"
| "scan_annotations position mabs st (rr # rest) =
     (case annot_step position mabs st rr of
        Inl e \<Rightarrow> Inl e
      | Inr st' \<Rightarrow> scan_annotations position mabs st' rest)"

definition resolve ::
  "int \<Rightarrow> int list \<Rightarrow> worksheet \<Rightarrow> annot_row list \<Rightarrow> error + (string list list \<times> resolver_state)" where
  "resolve position mabs ws aa_df =
     (if length mabs > 0
      then (case faces_of ws mabs of
              Inl e \<Rightarrow> Inl e
            | Inr fs \<Rightarrow>
                (case scan_annotations position mabs
                        \<lparr>mutations = Map.empty, asterisk_mabs = []\<rparr> aa_df of
                   Inl e \<Rightarrow> Inl e
                 | Inr st \<Rightarrow> Inr (fs, st)))
      else Inr ([], \<lparr>mutations = Map.empty, asterisk_mabs = []\<rparr>))"

section \<open>The mapping document, the layout and the render\<close>

text \<open>
  The mapping document is a list of records; each is given here with its position and
  its antibody string already split into integers (the empty list for an empty string,
  \<^verbatim>\<open>nan\<close> or \<^verbatim>\<open>none\<close>). A later record for a position replaces an earlier one.
\<close>

definition load_position_mabs :: "(int \<times> int list) list \<Rightarrow> (int \<rightharpoonup> int list)" where
  "load_position_mabs mapping_list = foldl (\<lambda>m r. m(fst r \<mapsto> snd r)) Map.empty mapping_list"

definition mabs_of :: "(int \<times> int list) list \<Rightarrow> int \<Rightarrow> int list" where
  "mabs_of mapping_list position =
     (case load_position_mabs mapping_list position of None \<Rightarrow> [] | Some l \<Rightarrow> l)"

definition neut_h_of :: "int list \<Rightarrow> real" where
  "neut_h_of mabs = (if length mabs > 0 then NEUT_ROW_H_IN * real (length mabs) else NO_MABS_H_IN)"

definition fig_h_of :: "real \<Rightarrow> real" where
  "fig_h_of nh = HIST_H_IN + CLUSTER_H_IN + nh + YEAR_H_IN + 3 * GAP_IN + TOP_PAD_IN + BOTTOM_PAD_IN"

text \<open>
  What \<^verbatim>\<open>render_position\<close> has computed when it starts drawing. \<open>placeholder\<close> says that
  the neutralization panel holds only the text "No associated mAbs".
\<close>

record figure =
  fig_mabs :: "int list"
  mat :: frame
  stack_order :: "string list"
  faces :: "string list list"
  placed :: "int \<rightharpoonup> (nat \<times> char \<times> char)"
  starred :: "int list"
  neut_h :: real
  fig_h :: real
  placeholder :: bool

definition render_position ::
  "int \<Rightarrow> hist_table \<Rightarrow> worksheet \<Rightarrow> annot_row list \<Rightarrow> (int \<times> int list) list \<Rightarrow> error + figure" where
  "render_position position df ws aa_df mapping_list =
     (let mabs = mabs_of mapping_list position
      in case select_rows df position of
           Inl e \<Rightarrow> Inl e
         | Inr sub \<Rightarrow>
             (let m = aggregate df sub
              in case resolve position mabs ws aa_df of
                   Inl e \<Rightarrow> Inl e
                 | Inr (fs, st) \<Rightarrow>
                     Inr \<lparr>fig_mabs = mabs,
                          mat = m,
                          stack_order = aa_order m,
                          faces = fs,
                          placed = mutations st,
                          starred = asterisk_mabs st,
                          neut_h = neut_h_of mabs,
                          fig_h = fig_h_of (neut_h_of mabs),
                          placeholder = (length mabs = 0)\<rparr>))"

section \<open>Concrete inputs\<close>

text \<open>
  A histogram table with three rows for position 160, two of set \<open>S1\<close> and one of set
  \<open>S2\<close>, and one row for position 45.
\<close>

definition ex_rowA :: hist_row where
  "ex_rowA = \<lparr>Position = 160, SetName = Some ''S1'', Amino_acid = Val ''A'',
              year_cell = [2000 \<mapsto> 3, 2001 \<mapsto> 5]\<rparr>"

definition ex_rowB :: hist_row where
  "ex_rowB = \<lparr>Position = 160, SetName = Some ''S1'', Amino_acid = Val ''B'',
              year_cell = [2000 \<mapsto> 1]\<rparr>"

definition ex_rowS2 :: hist_row where
  "ex_rowS2 = \<lparr>Position = 160, SetName = Some ''S2'', Amino_acid = Val ''C'',
               year_cell = [2000 \<mapsto> 7]\<rparr>"

definition ex_row45 :: hist_row where
  "ex_row45 = \<lparr>Position = 45, SetName = Some ''S1'', Amino_acid = Val ''K'',
               year_cell = [2000 \<mapsto> 2]\<rparr>"

definition ex_table :: hist_table where
  "ex_table = \<lparr>year_columns = [2000, 2001],
               table_rows = [ex_row45, ex_rowA, ex_rowS2, ex_rowB]\<rparr>"

definition ex_table_S1 :: hist_table where
  "ex_table_S1 = \<lparr>year_columns = [2000, 2001],
                  table_rows = [ex_row45, ex_rowA, ex_rowB]\<rparr>"

text \<open>A table whose labels at position 7 are \<open>other\<close>, in lower case, and \<open>A\<close>.\<close>

definition ex_row_lower :: hist_row where
  "ex_row_lower = \<lparr>Position = 7, SetName = Some ''S1'', Amino_acid = Val ''other'',
                   year_cell = [2000 \<mapsto> 3]\<rparr>"

definition ex_row_A7 :: hist_row where
  "ex_row_A7 = \<lparr>Position = 7, SetName = Some ''S1'', Amino_acid = Val ''A'',
                year_cell = [2000 \<mapsto> 1]\<rparr>"

definition ex_table_lower :: hist_table where
  "ex_table_lower = \<lparr>year_columns = [2000], table_rows = [ex_row_lower, ex_row_A7]\<rparr>"

text \<open>
  A neutralization sheet with the sixteen cluster headers in columns 3 to 18 and three
  rows: antibody 117 with solid fills, a row whose identifier is not a number, and
  antibody 42 written with a minus sign and without fills.
\<close>

definition ex_sheet :: worksheet where
  "ex_sheet =
     \<lparr>max_row = 5, max_column = 18,
      header = (\<lambda>c. if 3 \<le> c \<and> c \<le> 18 then Some (CLUSTER_NAMES ! (c - 3))
                     else if c = 2 then Some ''mAb'' else None),
      id_column = (\<lambda>r. if r = 3 then IntLike 117 else if r = 4 then NotInt
                        else if r = 5 then IntLike (- 42) else NoValue),
      cell_fill = (\<lambda>r c. if r = 3
                          then Some \<lparr>patternType = Some ''solid'', fgColor_type = ''rgb'',
                                     fgColor_rgb = ''FF1F77B4''\<rparr>
                          else Some \<lparr>patternType = None, fgColor_type = ''theme'',
                                     fgColor_rgb = ''00000000''\<rparr>)\<rparr>"

definition ex_annot :: "annot_row list" where
  "ex_annot =
     [\<lparr>Mutation_position = Some 160, mAB_ID = Some (- 117), Virus_strain = ''SY97'',
       Point_mutation = ''K160T''\<rparr>,
      \<lparr>Mutation_position = Some 160, mAB_ID = Some 42, Virus_strain = '' HK14 '',
       Point_mutation = ''N145S''\<rparr>,
      \<lparr>Mutation_position = Some 160, mAB_ID = None, Virus_strain = ''BE92'',
       Point_mutation = ''G5D''\<rparr>,
      \<lparr>Mutation_position = Some 45, mAB_ID = Some 117, Virus_strain = ''BE92'',
       Point_mutation = ''G5D''\<rparr>]"

definition ex_mapping :: "(int \<times> int list) list" where
  "ex_mapping = [(160, [117, 42]), (45, [])]"

definition ex_row_blank :: hist_row where
  "ex_row_blank = \<lparr>Position = 7, SetName = Some ''S1'', Amino_acid = NA,
                   year_cell = [2000 \<mapsto> 4]\<rparr>"

section \<open>Properties of the label coercion\<close>

lemma dropWhile_fixed:
  "xs = [] \<or> \<not> P (hd xs) \<Longrightarrow> dropWhile P xs = xs"
  by (cases xs) auto

lemma strip_fixed:
  assumes "s = [] \<or> (\<not> py_isspace (hd s) \<and> \<not> py_isspace (last s))"
  shows "strip s = s"
proof (cases "s = []")
  case True
  then show ?thesis by (simp add: strip_def)
next
  case False
  with assms have h: "\<not> py_isspace (hd s)" and l: "\<not> py_isspace (last s)" by auto
  from h have a: "dropWhile py_isspace s = s"
    by (simp add: dropWhile_fixed)
  from False l have "\<not> py_isspace (hd (rev s))"
    by (simp add: hd_rev)
  then have b: "dropWhile py_isspace (rev s) = rev s"
    by (simp add: dropWhile_fixed)
  show ?thesis by (simp add: strip_def a b)
qed

lemma strip_ends:
  "strip s = [] \<or> (\<not> py_isspace (hd (strip s)) \<and> \<not> py_isspace (last (strip s)))"
proof (cases "strip s = []")
  case True
  then show ?thesis by simp
next
  case False
  define t where "t = dropWhile py_isspace s"
  define u where "u = dropWhile py_isspace (rev t)"
  have su: "strip s = rev u" by (simp add: strip_def t_def u_def)
  with False have une: "u \<noteq> []" by simp
  then have tne: "t \<noteq> []" by (auto simp: u_def)
  have "\<not> py_isspace (hd u)"
    using une hd_dropWhile [of py_isspace "rev t"] by (simp add: u_def)
  with une have lastok: "\<not> py_isspace (last (strip s))"
    by (simp add: su last_rev)
  from tne have "dropWhile py_isspace s \<noteq> []"
    unfolding t_def .
  then have ht: "\<not> py_isspace (hd t)"
    unfolding t_def by (rule hd_dropWhile)
  obtain ys where ys: "rev t = ys @ u"
    using takeWhile_dropWhile_id [of py_isspace "rev t"] by (metis u_def)
  then have "t = rev u @ rev ys" by (metis rev_append rev_rev_ident)
  with une have "hd t = hd (rev u)" by simp
  with ht have "\<not> py_isspace (hd (strip s))" by (simp add: su)
  with lastok show ?thesis by simp
qed

lemma strip_idem: "strip (strip s) = strip s"
  by (rule strip_fixed) (rule strip_ends)

lemma lower_Other: "lower ''Other'' = ''other''"
  by code_simp

lemma strip_Other: "strip ''Other'' = ''Other''"
  by (rule strip_fixed) (simp add: py_isspace_def)

lemma coerce_aa_Other: "coerce_aa (Val ''Other'') = ''Other''"
  by (simp add: coerce_aa_def strip_Other lower_Other)

text \<open>
  C7. Amino-acid label coercion is idempotent: coercing the label that a coercion
  produced gives that label again, for every input cell.
\<close>

theorem coerce_aa_idempotent:
  "coerce_aa (Val (coerce_aa x)) = coerce_aa x"
proof (cases x)
  case NA
  then show ?thesis by (simp add: coerce_aa_def strip_Other lower_Other)
next
  case (Val v)
  show ?thesis
  proof (cases "strip v = ''-'' \<or> lower (strip v) \<in> set [''nan'', ''na'', ''n/a'', ''none'', '''']")
    case True
    then have "coerce_aa x = ''Other''"
      using Val by (simp add: coerce_aa_def Let_def)
    then show ?thesis by (simp add: coerce_aa_Other)
  next
    case False
    then have c: "coerce_aa x = strip v"
      using Val by (simp add: coerce_aa_def Let_def)
    from False show ?thesis
      unfolding c by (simp add: coerce_aa_def Let_def strip_idem)
  qed
qed

section \<open>Normalization\<close>

lemma sum_list_divide:
  "sum_list (map (\<lambda>c. f c / d) xs) = sum_list (map f xs) / (d::real)"
  by (induction xs) (simp_all add: add_divide_distrib)

lemma entry_safe_normalize:
  "entry (safe_normalize m) y c = entry m y c / divisor m y"
  by (simp add: safe_normalize_def)

lemma columns_safe_normalize:
  "columns (safe_normalize m) = columns m"
  by (simp add: safe_normalize_def)

lemma index_safe_normalize:
  "index (safe_normalize m) = index m"
  by (simp add: safe_normalize_def)

lemma row_safe_normalize:
  "entry (safe_normalize m) y = (\<lambda>c. entry m y c / divisor m y)"
  by (simp add: safe_normalize_def)

lemma row_sum_safe_normalize:
  "row_sum (safe_normalize m) y = row_sum m y / divisor m y"
  by (simp add: row_sum_def columns_safe_normalize row_safe_normalize sum_list_divide)

lemma divisor_nonzero: "divisor m y \<noteq> 0"
  by (simp add: divisor_def)

lemma zero_sum_row_kept:
  "row_sum m y = 0 \<Longrightarrow> entry (safe_normalize m) y c = entry m y c"
  by (simp add: entry_safe_normalize divisor_def)

lemma nonneg_sum_zero:
  "\<forall>x\<in>set xs. 0 \<le> f x \<Longrightarrow> sum_list (map f xs) = 0 \<Longrightarrow> \<forall>x\<in>set xs. f x = (0::real)"
proof (induction xs)
  case Nil
  then show ?case by simp
next
  case (Cons a xs)
  have "0 \<le> sum_list (map f xs)"
    using Cons.prems(1) by (intro sum_list_nonneg) auto
  moreover have "0 \<le> f a" using Cons.prems(1) by simp
  moreover have "f a + sum_list (map f xs) = 0" using Cons.prems(2) by simp
  ultimately have "f a = 0" and "sum_list (map f xs) = 0" by linarith+
  with Cons show ?case by simp
qed

lemma nonneg_zero_sum_row:
  assumes "\<forall>c\<in>set (columns m). 0 \<le> entry m y c" and "row_sum m y = 0"
  shows "\<forall>c\<in>set (columns m). entry m y c = 0"
  using assms nonneg_sum_zero [of "columns m" "entry m y"] by (simp add: row_sum_def)

text \<open>
  C2. For the matrix that the aggregator has accumulated, before and after
  normalization: a year whose row sum is not zero has row sum 1 afterwards; a year
  whose row sum is zero keeps its row as it was, and that row is all zero whenever it
  was all zero or its entries are not negative; and the number a row is divided by is
  never zero.
\<close>

theorem aggregate_rows_normalized:
  "(row_sum (accumulate df sub) y \<noteq> 0 \<longrightarrow> row_sum (aggregate df sub) y = 1)
   \<and> (row_sum (accumulate df sub) y = 0 \<longrightarrow>
        (\<forall>c. entry (aggregate df sub) y c = entry (accumulate df sub) y c))
   \<and> ((\<forall>c\<in>set (columns (accumulate df sub)). entry (accumulate df sub) y c = 0) \<longrightarrow>
        (\<forall>c\<in>set (columns (aggregate df sub)). entry (aggregate df sub) y c = 0))
   \<and> ((\<forall>c\<in>set (columns (accumulate df sub)). 0 \<le> entry (accumulate df sub) y c)
        \<and> row_sum (accumulate df sub) y = 0 \<longrightarrow>
        (\<forall>c\<in>set (columns (aggregate df sub)). entry (aggregate df sub) y c = 0))
   \<and> divisor (accumulate df sub) y \<noteq> 0"
proof -
  let ?raw = "accumulate df sub"
  have a: "row_sum ?raw y \<noteq> 0 \<longrightarrow> row_sum (aggregate df sub) y = 1"
    by (simp add: aggregate_def row_sum_safe_normalize divisor_def)
  have b: "row_sum ?raw y = 0 \<longrightarrow> (\<forall>c. entry (aggregate df sub) y c = entry ?raw y c)"
    by (simp add: aggregate_def zero_sum_row_kept)
  have c: "(\<forall>c\<in>set (columns ?raw). entry ?raw y c = 0) \<longrightarrow>
        (\<forall>c\<in>set (columns (aggregate df sub)). entry (aggregate df sub) y c = 0)"
    by (simp add: aggregate_def columns_safe_normalize entry_safe_normalize)
  have d: "(\<forall>c\<in>set (columns ?raw). 0 \<le> entry ?raw y c) \<and> row_sum ?raw y = 0 \<longrightarrow>
        (\<forall>c\<in>set (columns (aggregate df sub)). entry (aggregate df sub) y c = 0)"
    using nonneg_zero_sum_row [of ?raw y]
    by (simp add: aggregate_def columns_safe_normalize entry_safe_normalize)
  from a b c d divisor_nonzero [of ?raw y] show ?thesis by blast
qed


lemma ex_raw_2000: "row_sum (accumulate ex_table [ex_rowA, ex_rowB]) 2000 = 4"
  by code_simp

lemma ex_raw_1999: "row_sum (accumulate ex_table [ex_rowA, ex_rowB]) 1999 = 0"
  by code_simp

lemma ex_raw_columns: "columns (accumulate ex_table [ex_rowA, ex_rowB]) = [''A'', ''B'']"
  by code_simp

lemma ex_raw_1999_A: "entry (accumulate ex_table [ex_rowA, ex_rowB]) 1999 ''A'' = 0"
  by code_simp

lemma ex_raw_1999_B: "entry (accumulate ex_table [ex_rowA, ex_rowB]) 1999 ''B'' = 0"
  by code_simp

lemma ex_agg_columns: "columns (aggregate ex_table [ex_rowA, ex_rowB]) = [''A'', ''B'']"
  by code_simp

theorem aggregate_rows_normalized_witness:
  "row_sum (accumulate ex_table [ex_rowA, ex_rowB]) 2000 \<noteq> 0
   \<and> row_sum (aggregate ex_table [ex_rowA, ex_rowB]) 2000 = 1
   \<and> row_sum (accumulate ex_table [ex_rowA, ex_rowB]) 1999 = 0
   \<and> 0 \<le> entry (accumulate ex_table [ex_rowA, ex_rowB]) 1999 ''A''
   \<and> 0 \<le> entry (accumulate ex_table [ex_rowA, ex_rowB]) 1999 ''B''
   \<and> entry (aggregate ex_table [ex_rowA, ex_rowB]) 1999 ''A'' = 0
   \<and> entry (aggregate ex_table [ex_rowA, ex_rowB]) 1999 ''B'' = 0"
proof -
  let ?raw = "accumulate ex_table [ex_rowA, ex_rowB]"
  let ?m = "aggregate ex_table [ex_rowA, ex_rowB]"
  have nz: "row_sum ?raw 2000 \<noteq> 0"
    by (simp add: ex_raw_2000)
  have z: "row_sum ?raw 1999 = 0"
    by (rule ex_raw_1999)
  have nn: "\<forall>c\<in>set (columns ?raw). 0 \<le> entry ?raw 1999 c"
    by (simp add: ex_raw_columns ex_raw_1999_A ex_raw_1999_B)
  from nz aggregate_rows_normalized [of ex_table "[ex_rowA, ex_rowB]" 2000]
  have one: "row_sum ?m 2000 = 1" by blast
  from z nn aggregate_rows_normalized [of ex_table "[ex_rowA, ex_rowB]" 1999]
  have "\<forall>c\<in>set (columns ?m). entry ?m 1999 c = 0" by blast
  then have zero: "entry ?m 1999 ''A'' = 0 \<and> entry ?m 1999 ''B'' = 0"
    by (simp add: ex_agg_columns)
  from nz one z zero show ?thesis
    by (simp add: ex_raw_1999_A ex_raw_1999_B)
qed

section \<open>Row selection\<close>

lemma position_rows_split:
  assumes "table_rows df = pre @ first # rest"
    and "\<forall>r\<in>set pre. Position r \<noteq> p" and "Position first = p"
  shows "position_rows df p = first # filter (\<lambda>r. Position r = p) rest"
proof -
  have "filter (\<lambda>r. Position r = p) pre = []"
    using assms(2) by (simp add: filter_empty_conv)
  then show ?thesis
    using assms(1,3) by (simp add: position_rows_def)
qed

lemma select_rows_split:
  assumes "table_rows df = pre @ first # rest"
    and "\<forall>r\<in>set pre. Position r \<noteq> p" and "Position first = p"
  shows "select_rows df p =
         Inr (filter (\<lambda>r. Position r = p \<and> cell_eq (SetName r) (SetName first)) (first # rest))"
proof -
  have "filter (\<lambda>r. cell_eq (SetName r) (SetName first)) (filter (\<lambda>r. Position r = p) rest)
        = filter (\<lambda>r. Position r = p \<and> cell_eq (SetName r) (SetName first)) rest"
    by simp
  then show ?thesis
    using position_rows_split [OF assms] assms(3) by (simp add: select_rows_def)
qed

lemma accumulate_cong:
  "year_columns df' = year_columns df \<Longrightarrow> accumulate df' sub = accumulate df sub"
  by (simp add: accumulate_def yrs_use_def)

lemma aggregate_cong:
  assumes "year_columns df' = year_columns df"
  shows "aggregate df' = aggregate df"
  by (rule ext) (simp add: aggregate_def accumulate_cong [OF assms])

lemma render_position_cong:
  assumes "select_rows df' p = select_rows df p" and "year_columns df' = year_columns df"
  shows "render_position p df' ws aa_df mp = render_position p df ws aa_df mp"
  unfolding render_position_def assms(1) aggregate_cong [OF assms(2)] by (rule refl)

text \<open>
  C5. When the table has a first row \<open>first\<close> for the requested position, the rows used
  are the rows of that position whose SetName equals the SetName of \<open>first\<close>, in table
  order; and the rows after \<open>first\<close> that are of another position or another SetName
  can be changed at will without changing what is rendered, nor raising an error.
\<close>

theorem first_setname_only:
  assumes "table_rows df = pre @ first # rest"
    and "\<forall>r\<in>set pre. Position r \<noteq> p" and "Position first = p"
  shows "select_rows df p =
           Inr (filter (\<lambda>r. Position r = p \<and> cell_eq (SetName r) (SetName first)) (first # rest))
         \<and> (year_columns df' = year_columns df \<and> table_rows df' = pre @ first # rest'
              \<and> filter (\<lambda>r. Position r = p \<and> cell_eq (SetName r) (SetName first)) rest'
                  = filter (\<lambda>r. Position r = p \<and> cell_eq (SetName r) (SetName first)) rest
            \<longrightarrow> render_position p df' ws aa_df mp = render_position p df ws aa_df mp)"
proof (intro conjI impI)
  show "select_rows df p =
        Inr (filter (\<lambda>r. Position r = p \<and> cell_eq (SetName r) (SetName first)) (first # rest))"
    by (rule select_rows_split [OF assms])
next
  assume h: "year_columns df' = year_columns df \<and> table_rows df' = pre @ first # rest'
     \<and> filter (\<lambda>r. Position r = p \<and> cell_eq (SetName r) (SetName first)) rest'
         = filter (\<lambda>r. Position r = p \<and> cell_eq (SetName r) (SetName first)) rest"
  then have t: "table_rows df' = pre @ first # rest'" by simp
  from h have y: "year_columns df' = year_columns df" by simp
  have "select_rows df' p = select_rows df p"
    using h by (simp add: select_rows_split [OF t assms(2,3)] select_rows_split [OF assms])
  then show "render_position p df' ws aa_df mp = render_position p df ws aa_df mp"
    using y by (rule render_position_cong)
qed

lemma ex_fields:
  "Position ex_row45 = 45" "Position ex_rowA = 160" "Position ex_rowB = 160"
  "Position ex_rowS2 = 160" "SetName ex_rowA = Some ''S1''" "SetName ex_rowB = Some ''S1''"
  "SetName ex_rowS2 = Some ''S2''"
  by (simp_all add: ex_row45_def ex_rowA_def ex_rowB_def ex_rowS2_def)

theorem first_setname_only_witness:
  "select_rows ex_table 160 = Inr [ex_rowA, ex_rowB]
   \<and> render_position 160 ex_table_S1 ex_sheet ex_annot ex_mapping
     = render_position 160 ex_table ex_sheet ex_annot ex_mapping"
proof -
  have t: "table_rows ex_table = [ex_row45] @ ex_rowA # [ex_rowS2, ex_rowB]"
    by (simp add: ex_table_def)
  have pre: "\<forall>r\<in>set [ex_row45]. Position r \<noteq> 160"
    by (simp add: ex_fields)
  have f: "Position ex_rowA = 160"
    by (simp add: ex_fields)
  have t': "year_columns ex_table_S1 = year_columns ex_table
      \<and> table_rows ex_table_S1 = [ex_row45] @ ex_rowA # [ex_rowB]
      \<and> filter (\<lambda>r. Position r = 160 \<and> cell_eq (SetName r) (SetName ex_rowA)) [ex_rowB]
        = filter (\<lambda>r. Position r = 160 \<and> cell_eq (SetName r) (SetName ex_rowA)) [ex_rowS2, ex_rowB]"
    by (simp add: ex_table_def ex_table_S1_def ex_fields cell_eq_def)
  have s: "filter (\<lambda>r. Position r = 160 \<and> cell_eq (SetName r) (SetName ex_rowA))
             (ex_rowA # [ex_rowS2, ex_rowB]) = [ex_rowA, ex_rowB]"
    by (simp add: ex_fields cell_eq_def)
  from first_setname_only [OF t pre f, of ex_table_S1 "[ex_rowB]" ex_sheet ex_annot ex_mapping] t' s
  show ?thesis by simp
qed


section \<open>Positions are matched exactly\<close>

lemma annot_step_other_position:
  "Mutation_position rr = Some q \<Longrightarrow> q \<noteq> p \<Longrightarrow> annot_step p mabs st rr = Inr st"
  by (simp add: annot_step_def)

lemma ex_select_160: "select_rows ex_table 160 = Inr [ex_rowA, ex_rowB]"
  by (simp add: select_rows_def position_rows_def ex_table_def ex_fields cell_eq_def)

text \<open>
  C1, as stated, fails: the table has rows for position 160 and none for -160, and
  rendering -160 stops with the missing-data error while rendering 160 selects two rows.
\<close>

theorem position_sign_counterexample:
  "render_position (- 160) ex_table ex_sheet ex_annot ex_mapping = Inl NoHistogramData
   \<and> select_rows ex_table (- 160) = Inl NoHistogramData
   \<and> select_rows ex_table 160 = Inr [ex_rowA, ex_rowB]"
proof -
  have "select_rows ex_table (- 160) = Inl NoHistogramData"
    by (simp add: select_rows_def position_rows_def ex_table_def ex_fields)
  then show ?thesis
    by (simp add: render_position_def ex_select_160)
qed

text \<open>
  C1, amended. The position is used as given, sign included: rendering with position
  \<open>p\<close> selects the histogram rows whose Position equals \<open>p\<close>, so for a non-zero \<open>p\<close> no
  row is selected both for \<open>p\<close> and for \<open>-p\<close>; and an annotation row whose mutation
  position differs from \<open>p\<close>, be it only in sign, is skipped.
\<close>

theorem position_exact_match:
  "set (position_rows df p) = {r \<in> set (table_rows df). Position r = p}
   \<and> (p \<noteq> 0 \<longrightarrow> set (position_rows df p) \<inter> set (position_rows df (- p)) = {})
   \<and> (Mutation_position rr = Some q \<and> q \<noteq> p \<longrightarrow> annot_step p mabs st rr = Inr st)"
proof -
  have a: "set (position_rows df p) = {r \<in> set (table_rows df). Position r = p}"
    by (auto simp: position_rows_def)
  have b: "p \<noteq> 0 \<longrightarrow> set (position_rows df p) \<inter> set (position_rows df (- p)) = {}"
    by (auto simp: position_rows_def)
  from a b annot_step_other_position show ?thesis by blast
qed

theorem position_exact_match_witness:
  "(160::int) \<noteq> 0
   \<and> set (position_rows ex_table 160) \<inter> set (position_rows ex_table (- 160)) = {}
   \<and> annot_step 160 [117] \<lparr>mutations = Map.empty, asterisk_mabs = []\<rparr>
        \<lparr>Mutation_position = Some (- 160), mAB_ID = Some 117, Virus_strain = ''SY97'',
         Point_mutation = ''K160T''\<rparr>
      = Inr \<lparr>mutations = Map.empty, asterisk_mabs = []\<rparr>"
proof -
  let ?rr = "\<lparr>Mutation_position = Some (- 160), mAB_ID = Some 117, Virus_strain = ''SY97'',
        Point_mutation = ''K160T''\<rparr>"
  have nz: "(160::int) \<noteq> 0" by simp
  have h: "Mutation_position ?rr = Some (- 160) \<and> (- 160::int) \<noteq> 160" by simp
  from nz h position_exact_match [of ex_table 160 ?rr "- 160" "[117]"
      "\<lparr>mutations = Map.empty, asterisk_mabs = []\<rparr>"]
  show ?thesis by blast
qed

section \<open>The stacking order\<close>

lemma columns_add_row: "columns (add_row yrs m rr) = columns m"
  by (simp add: add_row_def Let_def)

lemma columns_foldl_add_row: "columns (foldl (add_row yrs) m sub) = columns m"
  by (induction sub arbitrary: m) (simp_all add: columns_add_row)

lemma columns_aggregate:
  "columns (aggregate df sub) = cols_of (map (\<lambda>r. coerce_aa (Amino_acid r)) sub)"
  by (simp add: aggregate_def columns_safe_normalize accumulate_def columns_foldl_add_row)

lemma cols_of_distinct: "distinct (cols_of aas)"
  by (simp add: cols_of_def)

lemma sorted_le_last:
  "sorted xs \<Longrightarrow> x \<in> set xs \<Longrightarrow> x \<le> last xs"
  by (induction xs) auto

lemma cols_of_Other_last:
  assumes "''Other'' \<in> set (cols_of aas)"
  shows "last (cols_of aas) = ''Other''"
proof -
  let ?k = "\<lambda>z::string. (z = ''Other'', z)"
  let ?cs = "cols_of aas"
  from assms have ne: "?cs \<noteq> []" by auto
  have "sorted (map ?k ?cs)"
    by (simp add: cols_of_def)
  moreover have "?k ''Other'' \<in> set (map ?k ?cs)"
    using assms by force
  ultimately have "?k ''Other'' \<le> last (map ?k ?cs)"
    by (rule sorted_le_last)
  with ne have "(True, ''Other'') \<le> (last ?cs = ''Other'', last ?cs)"
    by (simp add: last_map)
  then show ?thesis
    by (simp add: less_eq_prod_def)
qed

lemma last_filter_last:
  "xs \<noteq> [] \<Longrightarrow> P (last xs) \<Longrightarrow> last (filter P xs) = last xs"
  by (induction xs) (auto simp: filter_empty_conv)

lemma main_part:
  "filter (\<lambda>c. lower c \<noteq> ''other'') (aa_order m) = sort_key (\<lambda>c. - col_mean m c) (main_cols m)"
proof -
  have a: "filter (\<lambda>c. lower c \<noteq> ''other'') (sort_key (\<lambda>c. - col_mean m c) (main_cols m))
           = sort_key (\<lambda>c. - col_mean m c) (main_cols m)"
    by (rule filter_True) (simp add: main_cols_def)
  have b: "filter (\<lambda>c. lower c \<noteq> ''other'') (other_cols m) = []"
    by (simp add: other_cols_def filter_empty_conv)
  show ?thesis by (simp add: aa_order_def a b)
qed

lemma set_aa_order: "set (aa_order m) = set (columns m)"
  by (auto simp: aa_order_def main_cols_def other_cols_def)

lemma distinct_aa_order: "distinct (columns m) \<Longrightarrow> distinct (aa_order m)"
  by (auto simp: aa_order_def main_cols_def other_cols_def)

lemma ex_lower_select: "select_rows ex_table_lower 7 = Inr [ex_row_lower, ex_row_A7]"
  by (simp add: select_rows_def position_rows_def ex_table_lower_def ex_row_lower_def
      ex_row_A7_def cell_eq_def)

lemma ex_lower_order:
  "aa_order (aggregate ex_table_lower [ex_row_lower, ex_row_A7]) = [''A'', ''other'']"
  by code_simp

lemma ex_lower_means:
  "col_mean (aggregate ex_table_lower [ex_row_lower, ex_row_A7]) ''A''
   < col_mean (aggregate ex_table_lower [ex_row_lower, ex_row_A7]) ''other''"
  by code_simp

text \<open>
  C6, as stated, fails: with the labels \<open>A\<close> and \<open>other\<close> (lower case), neither of which
  is the label \<open>Other\<close>, \<open>A\<close> is stacked first although its mean proportion is the smaller.
\<close>

theorem stacking_order_counterexample:
  "select_rows ex_table_lower 7 = Inr [ex_row_lower, ex_row_A7]
   \<and> aa_order (aggregate ex_table_lower [ex_row_lower, ex_row_A7]) = [''A'', ''other'']
   \<and> col_mean (aggregate ex_table_lower [ex_row_lower, ex_row_A7]) ''A''
     < col_mean (aggregate ex_table_lower [ex_row_lower, ex_row_A7]) ''other''"
  using ex_lower_select ex_lower_order ex_lower_means by simp

text \<open>
  C6, amended. In the stacking order of an aggregated matrix, the labels that are not
  \<open>other\<close> in any letter case come first, sorted by descending mean proportion; the
  labels that are \<open>other\<close> up to letter case follow them in column order; the order has
  every column once; and the label \<open>Other\<close>, when it is a column, is the last one.
\<close>

theorem stacking_order:
  "sorted_wrt (\<lambda>a b. col_mean (aggregate df sub) b \<le> col_mean (aggregate df sub) a)
     (filter (\<lambda>c. lower c \<noteq> ''other'') (aa_order (aggregate df sub)))
   \<and> aa_order (aggregate df sub)
       = filter (\<lambda>c. lower c \<noteq> ''other'') (aa_order (aggregate df sub))
         @ filter (\<lambda>c. lower c = ''other'') (columns (aggregate df sub))
   \<and> set (aa_order (aggregate df sub)) = set (columns (aggregate df sub))
   \<and> distinct (aa_order (aggregate df sub))
   \<and> (''Other'' \<in> set (columns (aggregate df sub))
        \<longrightarrow> last (aa_order (aggregate df sub)) = ''Other'')"
proof -
  let ?m = "aggregate df sub"
  let ?k = "\<lambda>c. - col_mean ?m c"
  have "sorted (map ?k (sort_key ?k (main_cols ?m)))"
    by simp
  then have "sorted_wrt (\<lambda>a b. ?k a \<le> ?k b) (sort_key ?k (main_cols ?m))"
    by (simp only: sorted_map)
  then have a: "sorted_wrt (\<lambda>a b. col_mean ?m b \<le> col_mean ?m a)
       (filter (\<lambda>c. lower c \<noteq> ''other'') (aa_order ?m))"
    by (simp add: main_part)
  have b: "aa_order ?m = filter (\<lambda>c. lower c \<noteq> ''other'') (aa_order ?m)
       @ filter (\<lambda>c. lower c = ''other'') (columns ?m)"
    by (simp add: main_part) (simp add: aa_order_def other_cols_def)
  have d: "distinct (aa_order ?m)"
    by (rule distinct_aa_order) (simp add: columns_aggregate cols_of_distinct)
  have e: "last (aa_order ?m) = ''Other''" if h: "''Other'' \<in> set (columns ?m)"
  proof -
    from h have l: "last (columns ?m) = ''Other''"
      by (simp add: columns_aggregate cols_of_Other_last)
    from h have ne: "columns ?m \<noteq> []" by auto
    have "lower (last (columns ?m)) = ''other''"
      by (simp add: l lower_Other)
    with ne have lo: "last (other_cols ?m) = ''Other''"
      unfolding other_cols_def using l by (simp add: last_filter_last)
    from h have "''Other'' \<in> set (other_cols ?m)"
      by (simp add: other_cols_def lower_Other)
    then have "other_cols ?m \<noteq> []"
      by auto
    then show ?thesis
      by (simp add: aa_order_def lo)
  qed
  from a b d e set_aa_order [of ?m] show ?thesis by blast
qed

theorem stacking_order_witness:
  "''Other'' \<in> set (columns (aggregate ex_table_lower [ex_row_lower, ex_row_A7, ex_row_blank]))
   \<and> last (aa_order (aggregate ex_table_lower [ex_row_lower, ex_row_A7, ex_row_blank])) = ''Other''"
proof -
  have "columns (aggregate ex_table_lower [ex_row_lower, ex_row_A7, ex_row_blank])
        = [''A'', ''other'', ''Other'']"
    by code_simp
  then have h: "''Other'' \<in> set (columns (aggregate ex_table_lower [ex_row_lower, ex_row_A7, ex_row_blank]))"
    by simp
  with stacking_order [of ex_table_lower "[ex_row_lower, ex_row_A7, ex_row_blank]"]
  show ?thesis by blast
qed

section \<open>Antibody identifiers\<close>








section \<open>Mutation placement\<close>

lemma length_CLUSTER_NAMES: "length CLUSTER_NAMES = 16"
  by (simp add: CLUSTER_NAMES_def CLUSTERS_def)

lemma distinct_CLUSTER_NAMES: "distinct CLUSTER_NAMES"
  by (simp add: CLUSTER_NAMES_def CLUSTERS_def)

lemma index_of_nth:
  "distinct xs \<Longrightarrow> i < length xs \<Longrightarrow> index_of xs (xs ! i) = i"
proof (induction xs arbitrary: i)
  case Nil
  then show ?case by simp
next
  case (Cons a xs)
  show ?case
  proof (cases i)
    case 0
    then show ?thesis by (simp add: index_of_def)
  next
    case (Suc j)
    with Cons.prems have j: "j < length xs" and d: "distinct xs" and a: "a \<notin> set xs"
      by auto
    from j a have "a \<noteq> xs ! j" by auto
    moreover have "index_of xs (xs ! j) = j"
      by (rule Cons.IH [OF d j])
    ultimately show ?thesis
      using Suc by (simp add: index_of_def)
  qed
qed

lemma last_CLUSTER_NAMES: "last CLUSTER_NAMES = CLUSTER_NAMES ! 15"
  by (simp add: CLUSTER_NAMES_def CLUSTERS_def)

lemma annot_step_placed:
  assumes "Mutation_position rr = Some position" and "mAB_ID rr = Some k"
    and "match_mab mabs k = Some m" and "strip (Point_mutation rr) \<noteq> []"
    and "idx < 16" and "strip (Virus_strain rr) = CLUSTER_NAMES ! idx"
  shows "annot_step position mabs st rr =
         (if idx = 15
          then Inr (st\<lparr>asterisk_mabs := asterisk_mabs st @ [m]\<rparr>)
          else Inr (st\<lparr>mutations := (mutations st)
                 (m \<mapsto> (idx, hd (strip (Point_mutation rr)), last (strip (Point_mutation rr))))\<rparr>))"
proof -
  from assms(5) have i: "idx < length CLUSTER_NAMES"
    by (simp add: length_CLUSTER_NAMES)
  then have mem: "strip (Virus_strain rr) \<in> set CLUSTER_NAMES"
    using assms(6) by simp
  have ix: "index_of CLUSTER_NAMES (strip (Virus_strain rr)) = idx"
    using index_of_nth [OF distinct_CLUSTER_NAMES i] assms(6) by simp
  show ?thesis
    using assms(1-4) mem
    by (simp add: annot_step_def Let_def ix length_CLUSTER_NAMES)
qed

lemma strip_blank: "strip '' '' = []"
  by code_simp

text \<open>
  C4, as stated, fails: the row below matches the position and the antibody, and its
  strain is the final cluster, but its point-mutation field is blank; the row is skipped
  and the antibody is not footnote-marked.
\<close>

theorem mutation_placement_counterexample:
  "Mutation_position \<lparr>Mutation_position = Some 160, mAB_ID = Some 117,
      Virus_strain = ''HK14'', Point_mutation = '' ''\<rparr> = Some 160
   \<and> match_mab [117] 117 = Some 117
   \<and> last CLUSTER_NAMES = ''HK14''
   \<and> annot_step 160 [117] \<lparr>mutations = Map.empty, asterisk_mabs = []\<rparr>
        \<lparr>Mutation_position = Some 160, mAB_ID = Some 117,
         Virus_strain = ''HK14'', Point_mutation = '' ''\<rparr>
     = Inr \<lparr>mutations = Map.empty, asterisk_mabs = []\<rparr>"
  by (simp add: annot_step_def match_mab_def strip_blank CLUSTER_NAMES_def CLUSTERS_def)

text \<open>
  C4, amended. For an annotation row whose position matches, whose identifier matches
  the antibody \<open>m\<close> of the position, and whose point-mutation field is not blank: if the
  strain is the name of the final cluster, \<open>m\<close> is appended to the footnote-marked
  antibodies and the positioned mutations stay as they were; if the strain is the name
  of the cluster of index \<open>idx\<close>, not the final one, the positioned mutations map \<open>m\<close> to
  \<open>idx\<close> with the first and the last character of the trimmed field, and the
  footnote-marked antibodies stay as they were.
\<close>

theorem mutation_placement:
  assumes "Mutation_position rr = Some position" and "mAB_ID rr = Some k"
    and "match_mab mabs k = Some m" and "strip (Point_mutation rr) \<noteq> []"
  shows "(strip (Virus_strain rr) = last CLUSTER_NAMES \<longrightarrow>
            annot_step position mabs st rr = Inr (st\<lparr>asterisk_mabs := asterisk_mabs st @ [m]\<rparr>))
         \<and> (idx < length CLUSTER_NAMES - 1 \<and> strip (Virus_strain rr) = CLUSTER_NAMES ! idx \<longrightarrow>
            annot_step position mabs st rr =
              Inr (st\<lparr>mutations := (mutations st)
                 (m \<mapsto> (idx, hd (strip (Point_mutation rr)), last (strip (Point_mutation rr))))\<rparr>))"
proof (intro conjI impI)
  assume "strip (Virus_strain rr) = last CLUSTER_NAMES"
  then have "strip (Virus_strain rr) = CLUSTER_NAMES ! 15"
    by (simp add: last_CLUSTER_NAMES)
  from annot_step_placed [OF assms _ this, of st]
  show "annot_step position mabs st rr = Inr (st\<lparr>asterisk_mabs := asterisk_mabs st @ [m]\<rparr>)"
    by simp
next
  assume h: "idx < length CLUSTER_NAMES - 1 \<and> strip (Virus_strain rr) = CLUSTER_NAMES ! idx"
  then have i: "idx < 16" and n: "idx \<noteq> 15"
    by (simp_all add: length_CLUSTER_NAMES)
  from h have s: "strip (Virus_strain rr) = CLUSTER_NAMES ! idx" by simp
  from annot_step_placed [OF assms i s, of st] n
  show "annot_step position mabs st rr =
      Inr (st\<lparr>mutations := (mutations st)
         (m \<mapsto> (idx, hd (strip (Point_mutation rr)), last (strip (Point_mutation rr))))\<rparr>)"
    by simp
qed

lemma ex_strips:
  "strip '' HK14 '' = ''HK14''" "strip ''SY97'' = ''SY97''"
  "strip ''N145S'' = ''N145S''" "strip ''K160T'' = ''K160T''"
  by code_simp+

theorem mutation_placement_witness:
  "annot_step 160 [117, 42] \<lparr>mutations = Map.empty, asterisk_mabs = []\<rparr>
     \<lparr>Mutation_position = Some 160, mAB_ID = Some 42, Virus_strain = '' HK14 '',
      Point_mutation = ''N145S''\<rparr>
   = Inr \<lparr>mutations = Map.empty, asterisk_mabs = [42]\<rparr>
   \<and> annot_step 160 [117, 42] \<lparr>mutations = Map.empty, asterisk_mabs = []\<rparr>
     \<lparr>Mutation_position = Some 160, mAB_ID = Some (- 117), Virus_strain = ''SY97'',
      Point_mutation = ''K160T''\<rparr>
   = Inr \<lparr>mutations = [117 \<mapsto> (9, CHR ''K'', CHR ''T'')], asterisk_mabs = []\<rparr>"
proof -
  let ?st = "\<lparr>mutations = Map.empty, asterisk_mabs = []\<rparr>"
  let ?r1 = "\<lparr>Mutation_position = Some 160, mAB_ID = Some 42, Virus_strain = '' HK14 '',
      Point_mutation = ''N145S''\<rparr>"
  let ?r2 = "\<lparr>Mutation_position = Some 160, mAB_ID = Some (- 117), Virus_strain = ''SY97'',
      Point_mutation = ''K160T''\<rparr>"
  have m1: "match_mab [117, 42] 42 = Some 42" and m2: "match_mab [117, 42] (- 117) = Some 117"
    by (simp_all add: match_mab_def)
  have l: "strip (Virus_strain ?r1) = last CLUSTER_NAMES"
    by (simp add: ex_strips CLUSTER_NAMES_def CLUSTERS_def)
  have n: "9 < length CLUSTER_NAMES - 1 \<and> strip (Virus_strain ?r2) = CLUSTER_NAMES ! 9"
    by (simp add: ex_strips CLUSTER_NAMES_def CLUSTERS_def)
  have a: "annot_step 160 [117, 42] ?st ?r1 = Inr (?st\<lparr>asterisk_mabs := asterisk_mabs ?st @ [42]\<rparr>)"
    using mutation_placement [of ?r1 160 42 "[117, 42]" 42 ?st] m1 l
    by (simp add: ex_strips)
  have b: "annot_step 160 [117, 42] ?st ?r2 =
      Inr (?st\<lparr>mutations := (mutations ?st)
         (117 \<mapsto> (9, hd (strip (Point_mutation ?r2)), last (strip (Point_mutation ?r2))))\<rparr>)"
    using mutation_placement [of ?r2 160 "- 117" "[117, 42]" 117 ?st 9] m2 n
    by (simp add: ex_strips)
  from a b show ?thesis
    by (simp add: ex_strips)
qed

section \<open>Errors of a render\<close>

lemma collect_Inl:
  "collect f xs = Inl e \<Longrightarrow> \<exists>x\<in>set xs. f x = Inl e"
  by (induction xs arbitrary: e) (auto split: sum.splits)

lemma face_cell_Inl:
  "face_cell ws m c = Inl e \<Longrightarrow> e \<noteq> NoHistogramData"
  by (auto simp: face_cell_def split: option.splits)

lemma faces_of_Inl:
  assumes "faces_of ws mabs = Inl e"
  shows "e \<noteq> NoHistogramData"
proof -
  from assms obtain m where "collect (face_cell ws m) CLUSTER_NAMES = Inl e"
    unfolding faces_of_def by (blast dest: collect_Inl)
  then obtain c where "face_cell ws m c = Inl e"
    by (blast dest: collect_Inl)
  then show ?thesis by (rule face_cell_Inl)
qed

lemma annot_step_Inl:
  "annot_step p mabs st rr = Inl e \<Longrightarrow> e = IntConversionError"
  by (auto simp: annot_step_def Let_def split: option.splits if_splits)

lemma scan_annotations_Inl:
  "scan_annotations p mabs st rows = Inl e \<Longrightarrow> e = IntConversionError"
  by (induction rows arbitrary: st) (auto split: sum.splits dest: annot_step_Inl)

lemma resolve_Inl:
  "resolve p mabs ws aa_df = Inl e \<Longrightarrow> e \<noteq> NoHistogramData"
  by (auto simp: resolve_def split: if_splits sum.splits
      dest: faces_of_Inl scan_annotations_Inl)

lemma resolve_no_mabs:
  "resolve p [] ws aa_df = Inr ([], \<lparr>mutations = Map.empty, asterisk_mabs = []\<rparr>)"
  by (simp add: resolve_def)

lemma select_rows_Inl:
  "(select_rows df p = Inl e) = (e = NoHistogramData \<and> position_rows df p = [])"
  by (auto simp: select_rows_def split: list.splits)

lemma select_rows_ok:
  "position_rows df p \<noteq> [] \<Longrightarrow> \<exists>sub. select_rows df p = Inr sub"
  by (auto simp: select_rows_def split: list.splits)

lemma no_data_error_iff:
  "(render_position p df ws aa_df mp = Inl NoHistogramData) = (position_rows df p = [])"
proof
  assume "render_position p df ws aa_df mp = Inl NoHistogramData"
  then show "position_rows df p = []"
    by (auto simp: render_position_def Let_def select_rows_Inl
        split: sum.splits prod.splits dest: resolve_Inl)
next
  assume "position_rows df p = []"
  then have "select_rows df p = Inl NoHistogramData"
    by (simp add: select_rows_Inl)
  then show "render_position p df ws aa_df mp = Inl NoHistogramData"
    by (simp add: render_position_def)
qed

lemma annot_step_skips:
  assumes "Mutation_position rr = Some q"
    and "mAB_ID rr = None \<or> (\<exists>k. mAB_ID rr = Some k \<and> match_mab mabs k = None)
         \<or> strip (Point_mutation rr) = []"
  shows "annot_step p mabs st rr = Inr st"
  using assms by (auto simp: annot_step_def Let_def split: option.splits)

lemma render_position_Inr:
  assumes "render_position p df ws aa_df mp = Inr fg"
  shows "fig_mabs fg = mabs_of mp p \<and> neut_h fg = neut_h_of (mabs_of mp p)
         \<and> fig_h fg = fig_h_of (neut_h_of (mabs_of mp p))
         \<and> placeholder fg = (mabs_of mp p = [])"
  using assms
  by (auto simp: render_position_def Let_def split: sum.splits prod.splits)

lemma ex_faces_missing: "faces_of ex_sheet [5] = Inl TypeError"
  by code_simp

lemma ex_find_missing: "find_row ex_sheet 5 = None"
  by code_simp

text \<open>
  C9 fails on the code at this input: position 160 has histogram rows and is mapped to
  antibody 5, which the neutralization sheet does not list. The lookup returns no row,
  and reading the fills of that row aborts the render with a TypeError.
\<close>

theorem failed_lookup_aborts:
  "select_rows ex_table 160 = Inr [ex_rowA, ex_rowB]
   \<and> find_row ex_sheet 5 = None
   \<and> render_position 160 ex_table ex_sheet ex_annot [(160, [5])] = Inl TypeError"
proof -
  have "mabs_of [(160, [5])] 160 = [5]"
    by (simp add: mabs_of_def load_position_mabs_def)
  moreover have "resolve 160 [5] ex_sheet ex_annot = Inl TypeError"
    by (simp add: resolve_def ex_faces_missing)
  ultimately show ?thesis
    by (simp add: render_position_def ex_select_160 ex_find_missing)
qed

section \<open>The adaptive height\<close>

text \<open>
  C8. Whenever a render succeeds, the antibodies of the figure are those mapped to the
  position; the neutralization block is as high as the per-row height times their
  number when there is at least one (twice the per-row height for two), and as high as
  the placeholder when there is none; and the figure height is the sum of the histogram,
  cluster-strip and year-axis heights, this adaptive height, three gaps, and the top
  and bottom padding.
\<close>

theorem adaptive_height:
  assumes "render_position p df ws aa_df mp = Inr fg"
  shows "fig_mabs fg = mabs_of mp p
         \<and> (fig_mabs fg \<noteq> [] \<longrightarrow> neut_h fg = NEUT_ROW_H_IN * real (length (fig_mabs fg)))
         \<and> (length (fig_mabs fg) = 2 \<longrightarrow> neut_h fg = 2 * NEUT_ROW_H_IN)
         \<and> (fig_mabs fg = [] \<longrightarrow> neut_h fg = NO_MABS_H_IN)
         \<and> fig_h fg = HIST_H_IN + CLUSTER_H_IN + neut_h fg + YEAR_H_IN + 3 * GAP_IN
                       + TOP_PAD_IN + BOTTOM_PAD_IN"
  using render_position_Inr [OF assms]
  by (auto simp: neut_h_of_def fig_h_of_def)

lemma ex_render_160: "\<not> isl (render_position 160 ex_table ex_sheet ex_annot ex_mapping)"
  by code_simp

lemma ex_render_45: "\<not> isl (render_position 45 ex_table ex_sheet ex_annot ex_mapping)"
  by code_simp

lemma ex_mabs: "mabs_of ex_mapping 160 = [117, 42]" "mabs_of ex_mapping 45 = []"
  by (simp_all add: mabs_of_def load_position_mabs_def ex_mapping_def)

theorem adaptive_height_witness:
  "(\<exists>fg. render_position 160 ex_table ex_sheet ex_annot ex_mapping = Inr fg
        \<and> fig_mabs fg = [117, 42] \<and> neut_h fg = 2 * NEUT_ROW_H_IN
        \<and> fig_h fg = 699 / 200)
   \<and> (\<exists>fg. render_position 45 ex_table ex_sheet ex_annot ex_mapping = Inr fg
        \<and> fig_mabs fg = [] \<and> neut_h fg = NO_MABS_H_IN)"
proof -
  obtain fg where r: "render_position 160 ex_table ex_sheet ex_annot ex_mapping = Inr fg"
    using ex_render_160 by (cases "render_position 160 ex_table ex_sheet ex_annot ex_mapping") auto
  from adaptive_height [OF r] have m: "fig_mabs fg = [117, 42]"
    by (simp add: ex_mabs)
  then have "length (fig_mabs fg) = 2"
    by simp
  with adaptive_height [OF r] have nh: "neut_h fg = 2 * NEUT_ROW_H_IN"
    by blast
  from adaptive_height [OF r]
  have "fig_h fg = HIST_H_IN + CLUSTER_H_IN + neut_h fg + YEAR_H_IN + 3 * GAP_IN
                   + TOP_PAD_IN + BOTTOM_PAD_IN"
    by blast
  then have "fig_h fg = 699 / 200"
    by (simp add: nh HIST_H_IN_def CLUSTER_H_IN_def YEAR_H_IN_def GAP_IN_def
        TOP_PAD_IN_def BOTTOM_PAD_IN_def NEUT_ROW_H_IN_def)
  with m nh have a: "fig_mabs fg = [117, 42] \<and> neut_h fg = 2 * NEUT_ROW_H_IN
      \<and> fig_h fg = 699 / 200"
    by blast
  obtain fg' where r': "render_position 45 ex_table ex_sheet ex_annot ex_mapping = Inr fg'"
    using ex_render_45 by (cases "render_position 45 ex_table ex_sheet ex_annot ex_mapping") auto
  from adaptive_height [OF r'] have m': "fig_mabs fg' = []"
    by (simp add: ex_mabs)
  with adaptive_height [OF r'] have b: "fig_mabs fg' = [] \<and> neut_h fg' = NO_MABS_H_IN"
    by blast
  from r a r' b show ?thesis by blast
qed

section \<open>Positions without a mapping record\<close>

lemma foldl_update_None:
  "(foldl (\<lambda>m r. m(fst r \<mapsto> snd r)) m0 mp p = None) = (m0 p = None \<and> p \<notin> fst ` set mp)"
  by (induction mp arbitrary: m0) auto

lemma load_position_mabs_None:
  "(load_position_mabs mp p = None) = (p \<notin> fst ` set mp)"
  by (simp add: load_position_mabs_def foldl_update_None)

lemma mabs_of_unmapped:
  assumes "p \<notin> fst ` set mp"
  shows "mabs_of mp p = []"
proof -
  from assms have "load_position_mabs mp p = None"
    by (simp add: load_position_mabs_None)
  then show ?thesis by (simp add: mabs_of_def)
qed

lemma mabs_of_mapped_empty: "mabs_of (mp @ [(p, [])]) p = []"
  by (simp add: mabs_of_def load_position_mabs_def)

lemma render_position_mabs_cong:
  assumes "mabs_of mp' p = mabs_of mp p"
  shows "render_position p df ws aa_df mp' = render_position p df ws aa_df mp"
  unfolding render_position_def assms by (rule refl)

text \<open>
  C10. A position without a record in the mapping document is rendered exactly as if
  the document mapped it to the empty antibody list. The missing record raises nothing:
  the render fails only when the position has no histogram rows, and otherwise gives a
  figure without antibodies, whose neutralization panel is the placeholder at the
  minimum height.
\<close>

theorem unmapped_position:
  assumes "p \<notin> fst ` set mp"
  shows "render_position p df ws aa_df mp = render_position p df ws aa_df (mp @ [(p, [])])
         \<and> (position_rows df p = [] \<longrightarrow>
              render_position p df ws aa_df mp = Inl NoHistogramData)
         \<and> (position_rows df p \<noteq> [] \<longrightarrow>
              (\<exists>fg. render_position p df ws aa_df mp = Inr fg \<and> fig_mabs fg = []
                 \<and> faces fg = [] \<and> starred fg = [] \<and> placed fg = Map.empty
                 \<and> placeholder fg \<and> neut_h fg = NO_MABS_H_IN))"
proof (intro conjI impI)
  have "mabs_of (mp @ [(p, [])]) p = mabs_of mp p"
    by (simp add: mabs_of_unmapped [OF assms] mabs_of_mapped_empty)
  then show "render_position p df ws aa_df mp = render_position p df ws aa_df (mp @ [(p, [])])"
    by (rule render_position_mabs_cong [symmetric])
next
  assume "position_rows df p = []"
  then show "render_position p df ws aa_df mp = Inl NoHistogramData"
    by (simp add: no_data_error_iff)
next
  assume "position_rows df p \<noteq> []"
  then obtain sub where s: "select_rows df p = Inr sub"
    using select_rows_ok by blast
  show "\<exists>fg. render_position p df ws aa_df mp = Inr fg \<and> fig_mabs fg = []
          \<and> faces fg = [] \<and> starred fg = [] \<and> placed fg = Map.empty
          \<and> placeholder fg \<and> neut_h fg = NO_MABS_H_IN"
    by (simp add: render_position_def Let_def s mabs_of_unmapped [OF assms] resolve_no_mabs
        neut_h_of_def)
qed

theorem unmapped_position_witness:
  "7 \<notin> fst ` set ex_mapping
   \<and> position_rows ex_table_lower 7 \<noteq> []
   \<and> render_position 7 ex_table_lower ex_sheet ex_annot ex_mapping
     = render_position 7 ex_table_lower ex_sheet ex_annot (ex_mapping @ [(7, [])])
   \<and> (\<exists>fg. render_position 7 ex_table_lower ex_sheet ex_annot ex_mapping = Inr fg
         \<and> placeholder fg \<and> neut_h fg = NO_MABS_H_IN)"
proof -
  have u: "7 \<notin> fst ` set ex_mapping"
    by (simp add: ex_mapping_def)
  have n: "position_rows ex_table_lower 7 \<noteq> []"
    by (simp add: position_rows_def ex_table_lower_def ex_row_lower_def)
  from u n unmapped_position [OF u, of ex_table_lower ex_sheet ex_annot]
  show ?thesis by blast
qed

section \<open>Antibody identifiers in a render\<close>

lemma find_in_find:
  "find_in ws m rs = find (\<lambda>r. \<exists>v. id_column ws r = IntLike v \<and> \<bar>v\<bar> = \<bar>m\<bar>) rs"
  by (induction rs) (auto split: id_cell.splits)



lemma find_row_None:
  "(find_row ws m = None) =
     (\<forall>r. 3 \<le> r \<and> r \<le> max_row ws \<longrightarrow> \<not> (\<exists>v. id_column ws r = IntLike v \<and> \<bar>v\<bar> = \<bar>m\<bar>))"
  unfolding find_row_def find_in_find find_None_iff by auto
















end
